theory Spec2Isabelle
  imports Main
begin

section \<open>Error chain core (include/gerr/gerr.hpp)\<close>

subsection \<open>Error nodes and shared pointers\<close>

text \<open>
  \<open>gerr::Error\<close> is \<open>std::shared_ptr<details::IError>\<close>. A non-null shared pointer is
  modelled by the address of the object it points to together with the object; the null
  pointer is \<open>None\<close>. Error objects are never mutated after their constructor has run,
  so the object found behind an address is fixed, and two pointers are the same pointer
  exactly when their addresses agree.

  The object constructors below are the classes of the header, one constructor per class,
  with the private data members as arguments in the order of declaration. A
  \<open>char const*\<close> member is \<open>string option\<close>: \<open>None\<close> is \<open>nullptr\<close>, \<open>Some s\<close> points to the
  characters \<open>s\<close> followed by the terminating NUL. A \<open>std::string\<close> member is a
  \<open>string\<close>. The codes are C++ \<open>int\<close>s; they are only stored, compared and printed, never
  computed with, so they are modelled by \<open>int\<close>.

  The four macros \<open>DEFINE_ERROR\<close>, \<open>DEFINE_CODE_ERROR\<close>, \<open>DEFINE_CONTEXT_ERROR\<close> and
  \<open>DEFINE_CODE_CONTEXT_ERROR\<close> each generate a class; an object of such a class carries
  the macro arguments that are constant for the class (its name, its code, its message)
  and then the data members (\<open>__causE__\<close>, \<open>__contexT__\<close>, \<open>__messagE__\<close>). The
  type parameter \<open>'c\<close> is the \<open>ContextType\<close>.
\<close>

type_synonym addr = nat

datatype 'c shared_ptr = Ptr (addr: addr) (obj: "'c IError")
and 'c IError =
    RawStrMessageError "string option"
  | MessageError string
  | CodeRawStrMessageError int "string option"
  | CodeMessageError int string
  | CodeSubError int "'c shared_ptr option"
  | RawStrMessageSubError "string option" "'c shared_ptr option"
  | MessageSubError string "'c shared_ptr option"
  | CodeRawStrMessageSubError int "string option" "'c shared_ptr option"
  | CodeMessageSubError int string "'c shared_ptr option"
  | DEFINE_ERROR string "string option" "'c shared_ptr option"
  | DEFINE_CODE_ERROR string int "string option" "'c shared_ptr option"
  | DEFINE_CONTEXT_ERROR string 'c string "'c shared_ptr option"
  | DEFINE_CODE_CONTEXT_ERROR string int 'c string "'c shared_ptr option"

type_synonym 'c Error = "'c shared_ptr option"

text \<open>\<open>std::string::c_str\<close> read as a C string: the characters before the first NUL.\<close>

definition c_str :: "string \<Rightarrow> string" where
  "c_str s = takeWhile (\<lambda>ch. ch \<noteq> CHR 0x00) s"

text \<open>
  The three virtual member functions. \<open>IError\<close> gives the defaults \<open>0\<close>, \<open>nullptr\<close>,
  \<open>nullptr\<close>; every class overrides some of them.
\<close>

fun Code :: "'c IError \<Rightarrow> int" where
  "Code (RawStrMessageError errorMessage) = 0"
| "Code (MessageError errorMessage) = 0"
| "Code (CodeRawStrMessageError errorCode errorMessage) = errorCode"
| "Code (CodeMessageError errorCode errorMessage) = errorCode"
| "Code (CodeSubError errorCode causeError) = errorCode"
| "Code (RawStrMessageSubError errorMessage causeError) = 0"
| "Code (MessageSubError errorMessage causeError) = 0"
| "Code (CodeRawStrMessageSubError errorCode errorMessage causeError) = errorCode"
| "Code (CodeMessageSubError errorCode errorMessage causeError) = errorCode"
| "Code (DEFINE_ERROR ErrType ErrMessage causE) = 0"
| "Code (DEFINE_CODE_ERROR ErrType ErrCode ErrMessage causE) = ErrCode"
| "Code (DEFINE_CONTEXT_ERROR ErrType contexT messagE causE) = 0"
| "Code (DEFINE_CODE_CONTEXT_ERROR ErrType ErrCode contexT messagE causE) = ErrCode"

fun Message :: "'c IError \<Rightarrow> string option" where
  "Message (RawStrMessageError errorMessage) = errorMessage"
| "Message (MessageError errorMessage) = Some (c_str errorMessage)"
| "Message (CodeRawStrMessageError errorCode errorMessage) = errorMessage"
| "Message (CodeMessageError errorCode errorMessage) = Some (c_str errorMessage)"
| "Message (CodeSubError errorCode causeError) = None"
| "Message (RawStrMessageSubError errorMessage causeError) = errorMessage"
| "Message (MessageSubError errorMessage causeError) = Some (c_str errorMessage)"
| "Message (CodeRawStrMessageSubError errorCode errorMessage causeError) = errorMessage"
| "Message (CodeMessageSubError errorCode errorMessage causeError) =
     Some (c_str errorMessage)"
| "Message (DEFINE_ERROR ErrType ErrMessage causE) = ErrMessage"
| "Message (DEFINE_CODE_ERROR ErrType ErrCode ErrMessage causE) = ErrMessage"
| "Message (DEFINE_CONTEXT_ERROR ErrType contexT messagE causE) = Some (c_str messagE)"
| "Message (DEFINE_CODE_CONTEXT_ERROR ErrType ErrCode contexT messagE causE) =
     Some (c_str messagE)"

fun Cause :: "'c IError \<Rightarrow> 'c Error" where
  "Cause (RawStrMessageError errorMessage) = None"
| "Cause (MessageError errorMessage) = None"
| "Cause (CodeRawStrMessageError errorCode errorMessage) = None"
| "Cause (CodeMessageError errorCode errorMessage) = None"
| "Cause (CodeSubError errorCode causeError) = causeError"
| "Cause (RawStrMessageSubError errorMessage causeError) = causeError"
| "Cause (MessageSubError errorMessage causeError) = causeError"
| "Cause (CodeRawStrMessageSubError errorCode errorMessage causeError) = causeError"
| "Cause (CodeMessageSubError errorCode errorMessage causeError) = causeError"
| "Cause (DEFINE_ERROR ErrType ErrMessage causE) = causE"
| "Cause (DEFINE_CODE_ERROR ErrType ErrCode ErrMessage causE) = causE"
| "Cause (DEFINE_CONTEXT_ERROR ErrType contexT messagE causE) = causE"
| "Cause (DEFINE_CODE_CONTEXT_ERROR ErrType ErrCode contexT messagE causE) = causE"


subsection \<open>Dynamic types\<close>

text \<open>
  The dynamic type of an object, as \<open>dynamic_pointer_cast\<close> sees it. All classes of the
  header and all classes the macros generate derive directly from \<open>IError\<close>, so a cast to
  \<open>ExpectErr\<close> succeeds when \<open>ExpectErr\<close> is \<open>IError\<close> itself or the class of the object.
\<close>

datatype cls =
    IError_cls
  | RawStrMessageError_cls
  | MessageError_cls
  | CodeRawStrMessageError_cls
  | CodeMessageError_cls
  | CodeSubError_cls
  | RawStrMessageSubError_cls
  | MessageSubError_cls
  | CodeRawStrMessageSubError_cls
  | CodeMessageSubError_cls
  | DEFINE_ERROR_cls string
  | DEFINE_CODE_ERROR_cls string
  | DEFINE_CONTEXT_ERROR_cls string
  | DEFINE_CODE_CONTEXT_ERROR_cls string

fun class_of :: "'c IError \<Rightarrow> cls" where
  "class_of (RawStrMessageError errorMessage) = RawStrMessageError_cls"
| "class_of (MessageError errorMessage) = MessageError_cls"
| "class_of (CodeRawStrMessageError errorCode errorMessage) = CodeRawStrMessageError_cls"
| "class_of (CodeMessageError errorCode errorMessage) = CodeMessageError_cls"
| "class_of (CodeSubError errorCode causeError) = CodeSubError_cls"
| "class_of (RawStrMessageSubError errorMessage causeError) = RawStrMessageSubError_cls"
| "class_of (MessageSubError errorMessage causeError) = MessageSubError_cls"
| "class_of (CodeRawStrMessageSubError errorCode errorMessage causeError) =
     CodeRawStrMessageSubError_cls"
| "class_of (CodeMessageSubError errorCode errorMessage causeError) =
     CodeMessageSubError_cls"
| "class_of (DEFINE_ERROR ErrType ErrMessage causE) = DEFINE_ERROR_cls ErrType"
| "class_of (DEFINE_CODE_ERROR ErrType ErrCode ErrMessage causE) =
     DEFINE_CODE_ERROR_cls ErrType"
| "class_of (DEFINE_CONTEXT_ERROR ErrType contexT messagE causE) =
     DEFINE_CONTEXT_ERROR_cls ErrType"
| "class_of (DEFINE_CODE_CONTEXT_ERROR ErrType ErrCode contexT messagE causE) =
     DEFINE_CODE_CONTEXT_ERROR_cls ErrType"

definition dynamic_pointer_cast :: "cls \<Rightarrow> 'c shared_ptr \<Rightarrow> 'c Error" where
  "dynamic_pointer_cast ExpectErr p =
     (if ExpectErr = IError_cls \<or> class_of (obj p) = ExpectErr then Some p else None)"

subsection \<open>Inspection: As, Is, AsCode, IsCode, Code\<close>

text \<open>
  Each of these functions is a loop \<open>for (p = err; p != nullptr; p = p->Cause())\<close>. The
  loop is a recursive function on the pointer; it terminates because the cause of an
  object is a part of the object.
\<close>

function As_loop :: "cls \<Rightarrow> 'c Error \<Rightarrow> 'c Error" where
  "As_loop ExpectErr None = None"
| "As_loop ExpectErr (Some p) =
     (case dynamic_pointer_cast ExpectErr p of
        Some p1 \<Rightarrow> Some p1
      | None \<Rightarrow> As_loop ExpectErr (Cause (obj p)))"
  by pat_completeness auto
termination
proof (relation "measure (\<lambda>(ExpectErr, e). size_option size e)")
  show "wf (measure (\<lambda>(ExpectErr :: cls, e :: 'c Error). size_option size e))"
    by simp
next
  fix ExpectErr :: cls and p :: "'c shared_ptr"
  have "size_option size (Cause (obj p)) < size_option size (Some p)"
    by (cases p; cases "obj p"; cases "Cause (obj p)") auto
  then show "((ExpectErr, Cause (obj p)), (ExpectErr, Some p))
      \<in> measure (\<lambda>(ExpectErr, e). size_option size e)"
    by simp
qed

definition As :: "cls \<Rightarrow> 'c Error \<Rightarrow> 'c Error" where
  "As ExpectErr err = (if err = None then None else As_loop ExpectErr err)"

definition Is :: "cls \<Rightarrow> 'c Error \<Rightarrow> bool" where
  "Is ExpectErr err = (As ExpectErr err \<noteq> None)"

function AsCode_loop :: "int \<Rightarrow> 'c Error \<Rightarrow> 'c Error" where
  "AsCode_loop code None = None"
| "AsCode_loop code (Some p) =
     (if Code (obj p) = code then Some p else AsCode_loop code (Cause (obj p)))"
  by pat_completeness auto
termination
proof (relation "measure (\<lambda>(code, e). size_option size e)")
  show "wf (measure (\<lambda>(code :: int, e :: 'c Error). size_option size e))"
    by simp
next
  fix code :: int and p :: "'c shared_ptr"
  have "size_option size (Cause (obj p)) < size_option size (Some p)"
    by (cases p; cases "obj p"; cases "Cause (obj p)") auto
  then show "((code, Cause (obj p)), (code, Some p))
      \<in> measure (\<lambda>(code, e). size_option size e)"
    by simp
qed

definition AsCode :: "int \<Rightarrow> 'c Error \<Rightarrow> 'c Error" where
  "AsCode code err = (if err = None then None else AsCode_loop code err)"

definition IsCode :: "int \<Rightarrow> 'c Error \<Rightarrow> bool" where
  "IsCode code err = (AsCode code err \<noteq> None)"

text \<open>
  The free function \<open>gerr::Code(err, defaultErrCode)\<close>; the member function of the same
  name is \<open>Code\<close> above. \<open>Code_default\<close> is the call with the default argument \<open>-1\<close>.
\<close>

function Code_loop :: "'c Error \<Rightarrow> int \<Rightarrow> int" where
  "Code_loop None defaultErrCode = defaultErrCode"
| "Code_loop (Some p) defaultErrCode =
     (let c = Code (obj p)
      in if c \<noteq> 0 then c else Code_loop (Cause (obj p)) defaultErrCode)"
  by pat_completeness auto
termination
proof (relation "measure (\<lambda>(e, d). size_option size e)")
  show "wf (measure (\<lambda>(e :: 'c Error, d :: int). size_option size e))"
    by simp
next
  fix p :: "'c shared_ptr" and defaultErrCode :: int
  have "size_option size (Cause (obj p)) < size_option size (Some p)"
    by (cases p; cases "obj p"; cases "Cause (obj p)") auto
  then show "((Cause (obj p), defaultErrCode), (Some p, defaultErrCode))
      \<in> measure (\<lambda>(e, d). size_option size e)"
    by simp
qed

definition gerr_Code :: "'c Error \<Rightarrow> int \<Rightarrow> int" where
  "gerr_Code err defaultErrCode = (if err = None then 0 else Code_loop err defaultErrCode)"

definition Code_default :: "'c Error \<Rightarrow> int" where
  "Code_default err = gerr_Code err (- 1)"

subsection \<open>Rendering: String\<close>

text \<open>
  \<open>std::to_string(int)\<close>: the decimal digits of the value, after a minus sign when it is
  negative.
\<close>

definition digit_char :: "nat \<Rightarrow> char" where
  "digit_char d = ''0123456789'' ! (d mod 10)"

function digits :: "nat \<Rightarrow> string" where
  "digits n = (if n < 10 then [digit_char n] else digits (n div 10) @ [digit_char (n mod 10)])"
  by pat_completeness auto
termination
  by (relation "measure (\<lambda>n. n)") auto

definition to_string :: "int \<Rightarrow> string" where
  "to_string i = (if i < 0 then CHR ''-'' # digits (nat (- i)) else digits (nat i))"

text \<open>
  \<open>s += msg\<close> for a \<open>char const*\<close>: appends the characters of the C string. The source
  reaches it only under \<open>hasMsg\<close>, where the pointer is not null.
\<close>

definition append_cstr :: "string \<Rightarrow> string option \<Rightarrow> string" where
  "append_cstr s msg = (case msg of None \<Rightarrow> s | Some m \<Rightarrow> s @ m)"

text \<open>\<open>msg != nullptr && msg[0] != '\0'\<close>\<close>

definition hasMsg :: "string option \<Rightarrow> bool" where
  "hasMsg msg = (case msg of None \<Rightarrow> False | Some m \<Rightarrow> m \<noteq> [])"

text \<open>The body of the loop of \<open>String\<close> up to \<open>p = p->Cause()\<close>: what one node adds to \<open>s\<close>.\<close>

definition String_node :: "string \<Rightarrow> 'c IError \<Rightarrow> string" where
  "String_node s node =
     (let c = Code node; msg = Message node
      in if c \<noteq> 0 \<and> hasMsg msg then append_cstr (s @ to_string c @ '':'') msg
         else if c = 0 \<and> \<not> hasMsg msg then s @ ''<EMPTY>''
         else if c = 0 then append_cstr s msg
         else s @ to_string c)"

function String_loop :: "string \<Rightarrow> 'c shared_ptr \<Rightarrow> string" where
  "String_loop s p =
     (let s1 = String_node s (obj p)
      in case Cause (obj p) of
           Some q \<Rightarrow> String_loop (s1 @ '':'') q
         | None \<Rightarrow> s1)"
  by pat_completeness auto
termination
proof (relation "measure (\<lambda>(s, p). size p)")
  show "wf (measure (\<lambda>(s :: string, p :: 'c shared_ptr). size p))"
    by simp
next
  fix s s1 :: string and p q :: "'c shared_ptr"
  assume "Cause (obj p) = Some q"
  then have "size q < size p"
    by (cases p; cases "obj p") auto
  then show "((s1 @ '':'', q), (s, p)) \<in> measure (\<lambda>(s, p). size p)"
    by simp
qed

definition String :: "'c Error \<Rightarrow> string" where
  "String err = (case err of None \<Rightarrow> ''<NIL>'' | Some p \<Rightarrow> String_loop [] p)"

subsection \<open>Construction: Make, New, Wrap and the factories E\<close>

text \<open>
  \<open>std::make_shared\<close> allocates a new object, at an address no live object has. The
  allocator state is the next unused address. A function-local \<open>static\<close> is a slot that is
  empty until the first call of the function initialises it; the class that owns the
  function names the slot.
\<close>

record 'c heap =
  next_addr :: addr
  statics :: "cls \<Rightarrow> 'c Error option"

definition heap_init :: "'c heap" where
  "heap_init = \<lparr>next_addr = 0, statics = (\<lambda>T. None)\<rparr>"

text \<open>
  \<open>Make<ErrType>(args...)\<close>: the first argument is the object that the constructor of
  \<open>ErrType\<close> builds from \<open>args\<close>.
\<close>

definition Make :: "'c IError \<Rightarrow> 'c heap \<Rightarrow> 'c Error \<times> 'c heap" where
  "Make object h =
     (let p = Ptr (next_addr h) object
      in (Some p, h\<lparr>next_addr := Suc (next_addr h)\<rparr>))"

text \<open>
  \<open>fmt::format\<close> belongs to a library outside the repository: the formatted overloads
  take it as the parameter \<open>format\<close>, a function from the format string and the argument
  pack to the formatted \<open>std::string\<close>. The overloads on \<open>char const* formatStr\<close> and on
  \<open>std::string const& formatStr\<close> have the same body and are one definition here.
\<close>

definition New_msg :: "string option \<Rightarrow> 'c heap \<Rightarrow> 'c Error \<times> 'c heap" where
  "New_msg msg = Make (RawStrMessageError msg)"

definition New_fmt ::
  "(string \<Rightarrow> 'a \<Rightarrow> string) \<Rightarrow> string \<Rightarrow> 'a \<Rightarrow> 'c heap \<Rightarrow> 'c Error \<times> 'c heap" where
  "New_fmt format formatStr args = Make (MessageError (format formatStr args))"

definition New_code_msg :: "int \<Rightarrow> string option \<Rightarrow> 'c heap \<Rightarrow> 'c Error \<times> 'c heap" where
  "New_code_msg code msg = Make (CodeRawStrMessageError code msg)"

definition New_code_fmt ::
  "(string \<Rightarrow> 'a \<Rightarrow> string) \<Rightarrow> int \<Rightarrow> string \<Rightarrow> 'a \<Rightarrow> 'c heap \<Rightarrow> 'c Error \<times> 'c heap" where
  "New_code_fmt format code formatStr args =
     Make (CodeMessageError code (format formatStr args))"

definition Wrap_msg :: "'c Error \<Rightarrow> string option \<Rightarrow> 'c heap \<Rightarrow> 'c Error \<times> 'c heap" where
  "Wrap_msg err msg h =
     (let ptr = Ptr (next_addr h) (RawStrMessageSubError msg err)
      in (Some ptr, h\<lparr>next_addr := Suc (next_addr h)\<rparr>))"

definition Wrap_fmt ::
  "(string \<Rightarrow> 'a \<Rightarrow> string) \<Rightarrow> 'c Error \<Rightarrow> string \<Rightarrow> 'a \<Rightarrow> 'c heap \<Rightarrow> 'c Error \<times> 'c heap" where
  "Wrap_fmt format err formatStr args =
     Make (MessageSubError (format formatStr args) err)"

definition Wrap_code :: "'c Error \<Rightarrow> int \<Rightarrow> 'c heap \<Rightarrow> 'c Error \<times> 'c heap" where
  "Wrap_code err code = Make (CodeSubError code err)"

definition Wrap_code_msg ::
  "'c Error \<Rightarrow> int \<Rightarrow> string option \<Rightarrow> 'c heap \<Rightarrow> 'c Error \<times> 'c heap" where
  "Wrap_code_msg err code msg = Make (CodeRawStrMessageSubError code msg err)"

definition Wrap_code_fmt ::
  "(string \<Rightarrow> 'a \<Rightarrow> string) \<Rightarrow> 'c Error \<Rightarrow> int \<Rightarrow> string \<Rightarrow> 'a \<Rightarrow> 'c heap
     \<Rightarrow> 'c Error \<times> 'c heap" where
  "Wrap_code_fmt format err code formatStr args =
     Make (CodeMessageSubError code (format formatStr args) err)"

text \<open>
  The factories \<open>E\<close> of the classes the macros generate. \<open>E()\<close> of \<open>DEFINE_ERROR\<close> and of
  \<open>DEFINE_CODE_ERROR\<close> returns the function-local static \<open>__valuE__\<close>, which the first
  call initialises with \<open>Make<ErrType>(__PrivateStruct__{})\<close>. \<open>E(p)\<close> makes a new object
  with cause \<open>p\<close>. For the context classes, \<open>fmt::format(__ErrFormaT__, __VA_ARGS__)\<close> is
  an expression in \<open>context\<close>: the parameter \<open>ErrFormat\<close> is the function from the
  context to the formatted string.
\<close>

definition DEFINE_ERROR_E :: "string \<Rightarrow> string option \<Rightarrow> 'c heap \<Rightarrow> 'c Error \<times> 'c heap" where
  "DEFINE_ERROR_E ErrType ErrMessage h =
     (case statics h (DEFINE_ERROR_cls ErrType) of
        Some valuE \<Rightarrow> (valuE, h)
      | None \<Rightarrow>
          (let (valuE, h1) = Make (DEFINE_ERROR ErrType ErrMessage None) h
           in (valuE, h1\<lparr>statics := (statics h1)(DEFINE_ERROR_cls ErrType := Some valuE)\<rparr>)))"

definition DEFINE_ERROR_E_cause ::
  "string \<Rightarrow> string option \<Rightarrow> 'c Error \<Rightarrow> 'c heap \<Rightarrow> 'c Error \<times> 'c heap" where
  "DEFINE_ERROR_E_cause ErrType ErrMessage p = Make (DEFINE_ERROR ErrType ErrMessage p)"

definition DEFINE_CODE_ERROR_E ::
  "string \<Rightarrow> int \<Rightarrow> string option \<Rightarrow> 'c heap \<Rightarrow> 'c Error \<times> 'c heap" where
  "DEFINE_CODE_ERROR_E ErrType ErrCode ErrMessage h =
     (case statics h (DEFINE_CODE_ERROR_cls ErrType) of
        Some valuE \<Rightarrow> (valuE, h)
      | None \<Rightarrow>
          (let (valuE, h1) = Make (DEFINE_CODE_ERROR ErrType ErrCode ErrMessage None) h
           in (valuE,
               h1\<lparr>statics := (statics h1)(DEFINE_CODE_ERROR_cls ErrType := Some valuE)\<rparr>)))"

definition DEFINE_CODE_ERROR_E_cause ::
  "string \<Rightarrow> int \<Rightarrow> string option \<Rightarrow> 'c Error \<Rightarrow> 'c heap \<Rightarrow> 'c Error \<times> 'c heap" where
  "DEFINE_CODE_ERROR_E_cause ErrType ErrCode ErrMessage p =
     Make (DEFINE_CODE_ERROR ErrType ErrCode ErrMessage p)"

definition DEFINE_CONTEXT_ERROR_E ::
  "string \<Rightarrow> ('c \<Rightarrow> string) \<Rightarrow> 'c \<Rightarrow> 'c heap \<Rightarrow> 'c Error \<times> 'c heap" where
  "DEFINE_CONTEXT_ERROR_E ErrType ErrFormat context =
     Make (DEFINE_CONTEXT_ERROR ErrType context (ErrFormat context) None)"

definition DEFINE_CODE_CONTEXT_ERROR_E ::
  "string \<Rightarrow> int \<Rightarrow> ('c \<Rightarrow> string) \<Rightarrow> 'c \<Rightarrow> 'c heap \<Rightarrow> 'c Error \<times> 'c heap" where
  "DEFINE_CODE_CONTEXT_ERROR_E ErrType ErrCode ErrFormat context =
     Make (DEFINE_CODE_CONTEXT_ERROR ErrType ErrCode context (ErrFormat context) None)"

subsection \<open>The chain of an error\<close>

text \<open>
  The nodes that a walk \<open>for (p = err; p != nullptr; p = p->Cause())\<close> visits, outermost
  first. The theorems below state what the inspection functions compute in terms of it.
\<close>

function chain :: "'c Error \<Rightarrow> 'c shared_ptr list" where
  "chain None = []"
| "chain (Some p) = p # chain (Cause (obj p))"
  by pat_completeness auto
termination
proof (relation "measure (size_option size)")
  show "wf (measure (size_option (size :: 'c shared_ptr \<Rightarrow> nat)))"
    by simp
next
  fix p :: "'c shared_ptr"
  have "size_option size (Cause (obj p)) < size_option size (Some p)"
    by (cases p; cases "obj p"; cases "Cause (obj p)") auto
  then show "(Cause (obj p), Some p) \<in> measure (size_option size)"
    by simp
qed

text \<open>Strings joined with \<open>:\<close> between neighbours.\<close>

fun join_colon :: "string list \<Rightarrow> string" where
  "join_colon [] = []"
| "join_colon [x] = x"
| "join_colon (x # y # ys) = x @ '':'' @ join_colon (y # ys)"

text \<open>
  A static slot, once initialised, holds what \<open>Make\<close> returned. This holds of the initial
  heap and every construction function keeps it.
\<close>

definition statics_made :: "'c heap \<Rightarrow> bool" where
  "statics_made h = (\<forall>T. statics h T \<noteq> Some None)"

section \<open>The Try wrapper (examples/simpletry/try.hpp)\<close>

text \<open>
  \<open>Try<ValueType>\<close> derives from \<open>std::pair<ValueType, gerr::Error>\<close>. The value
  \<open>ValueType{}\<close> that the error constructors and \<open>ClearValue\<close> store is the parameter
  \<open>ValueType_init\<close> of the functions that use it.
\<close>

record ('v, 'c) Try =
  first :: 'v
  second :: "'c Error"

definition Try_of_Error :: "'v \<Rightarrow> 'c Error \<Rightarrow> ('v, 'c) Try" where
  "Try_of_Error ValueType_init err = \<lparr>first = ValueType_init, second = err\<rparr>"

definition Try_of_value :: "'v \<Rightarrow> ('v, 'c) Try" where
  "Try_of_value val = \<lparr>first = val, second = None\<rparr>"

definition IsSuccess :: "('v, 'c) Try \<Rightarrow> bool" where
  "IsSuccess t = (second t = None)"

definition IsFailure :: "('v, 'c) Try \<Rightarrow> bool" where
  "IsFailure t = (second t \<noteq> None)"

definition Value :: "('v, 'c) Try \<Rightarrow> 'v" where
  "Value t = first t"

definition Error :: "('v, 'c) Try \<Rightarrow> 'c Error" where
  "Error t = second t"

definition ClearValue :: "'v \<Rightarrow> ('v, 'c) Try \<Rightarrow> ('v, 'c) Try" where
  "ClearValue ValueType_init t = t\<lparr>first := ValueType_init\<rparr>"

definition ClearError :: "('v, 'c) Try \<Rightarrow> ('v, 'c) Try" where
  "ClearError t = t\<lparr>second := None\<rparr>"

text \<open>
  \<open>Assign\<close> on an error (the four overloads on a shared pointer have the same body), on a
  value (two overloads, same body) and on another \<open>Try\<close>.
\<close>

definition Assign_Error :: "'v \<Rightarrow> 'c Error \<Rightarrow> ('v, 'c) Try \<Rightarrow> ('v, 'c) Try" where
  "Assign_Error ValueType_init err t =
     (let t1 = (if IsSuccess t then ClearValue ValueType_init t else t)
      in t1\<lparr>second := err\<rparr>)"

definition Assign_value :: "'v \<Rightarrow> ('v, 'c) Try \<Rightarrow> ('v, 'c) Try" where
  "Assign_value newValue t =
     (let t1 = (if IsFailure t then ClearError t else t)
      in t1\<lparr>first := newValue\<rparr>)"

definition Assign_Try :: "('v, 'c) Try \<Rightarrow> ('v, 'c) Try \<Rightarrow> ('v, 'c) Try" where
  "Assign_Try src t = t\<lparr>first := first src, second := second src\<rparr>"

text \<open>\<open>operator=\<close> calls \<open>Assign\<close> on its argument and returns \<open>*this\<close>.\<close>

definition operator_assign_Error :: "'v \<Rightarrow> 'c Error \<Rightarrow> ('v, 'c) Try \<Rightarrow> ('v, 'c) Try" where
  "operator_assign_Error ValueType_init err t = Assign_Error ValueType_init err t"

definition operator_assign_value :: "'v \<Rightarrow> ('v, 'c) Try \<Rightarrow> ('v, 'c) Try" where
  "operator_assign_value arg t = Assign_value arg t"


section \<open>Example values\<close>

text \<open>
  A chain of four nodes, outermost first: code 7 with message \<open>outer\<close>, code 5 without
  message, a node with neither code nor message, and the root \<open>div 0\<close> of
  \<open>examples/simpletry/main.cpp\<close>; and a heap in which these four objects exist.
\<close>

definition example_root :: "unit shared_ptr" where
  "example_root = Ptr 0 (RawStrMessageError (Some ''div 0''))"

definition example_empty :: "unit shared_ptr" where
  "example_empty = Ptr 1 (RawStrMessageSubError None (Some example_root))"

definition example_coded :: "unit shared_ptr" where
  "example_coded = Ptr 2 (CodeSubError 5 (Some example_empty))"

definition example_top :: "unit shared_ptr" where
  "example_top = Ptr 3 (CodeMessageSubError 7 ''outer'' (Some example_coded))"

definition example_heap :: "unit heap" where
  "example_heap = \<lparr>next_addr = 4, statics = (\<lambda>T. None)\<rparr>"

section \<open>Properties\<close>

declare digits.simps [simp del]
declare String_loop.simps [simp del]

subsection \<open>The loops, in terms of the chain\<close>

lemma AsCode_loop_find:
  "AsCode_loop code err = find (\<lambda>p. Code (obj p) = code) (chain err)"
  by (induction code err rule: AsCode_loop.induct) simp_all

lemma AsCode_find: "AsCode code err = find (\<lambda>p. Code (obj p) = code) (chain err)"
  by (cases err) (simp_all add: AsCode_def AsCode_loop_find)

lemma As_loop_find:
  "As_loop V err = find (\<lambda>p. V = IError_cls \<or> class_of (obj p) = V) (chain err)"
  by (induction V err rule: As_loop.induct) (simp_all add: dynamic_pointer_cast_def)

lemma As_find: "As V err = find (\<lambda>p. V = IError_cls \<or> class_of (obj p) = V) (chain err)"
  by (cases err) (simp_all add: As_def As_loop_find)

lemma Code_loop_find:
  "Code_loop err d =
     (case find (\<lambda>p. Code (obj p) \<noteq> 0) (chain err) of
        None \<Rightarrow> d
      | Some p \<Rightarrow> Code (obj p))"
  by (induction err d rule: Code_loop.induct) (simp_all add: Let_def)

lemma gerr_Code_Some:
  "gerr_Code (Some p) d =
     (case find (\<lambda>q. Code (obj q) \<noteq> 0) (chain (Some p)) of
        None \<Rightarrow> d
      | Some q \<Rightarrow> Code (obj q))"
  by (simp only: gerr_Code_def Code_loop_find) simp

lemma find_first:
  "find P xs = Some x \<Longrightarrow> \<exists>i < length xs. xs ! i = x \<and> P x \<and> (\<forall>j < i. \<not> P (xs ! j))"
  by (auto simp: find_Some_iff)

subsection \<open>Rendering\<close>

lemma String_node_append: "String_node s n = s @ String_node [] n"
  by (simp add: String_node_def Let_def append_cstr_def split: option.splits)

lemma String_loop_join:
  "String_loop s p = s @ join_colon (map (\<lambda>q. String_node [] (obj q)) (chain (Some p)))"
proof (induction s p rule: String_loop.induct)
  case (1 s p)
  show ?case
  proof (cases "Cause (obj p)")
    case None
    then show ?thesis
      using String_node_append [of s "obj p"] by (simp add: String_loop.simps [of s p])
  next
    case (Some q)
    with 1 show ?thesis
      using String_node_append [of s "obj p"] by (simp add: String_loop.simps [of s p])
  qed
qed

lemma digits_not_empty: "digits n \<noteq> []"
  by (induction n rule: digits.induct) (subst digits.simps, simp)

lemma to_string_not_empty: "to_string i \<noteq> []"
  by (simp add: to_string_def digits_not_empty)

lemma String_node_not_empty: "String_node [] n \<noteq> []"
  by (auto simp: String_node_def Let_def append_cstr_def hasMsg_def to_string_not_empty
      split: option.splits)

lemma join_colon_not_empty:
  "xs \<noteq> [] \<Longrightarrow> (\<forall>x \<in> set xs. x \<noteq> []) \<Longrightarrow> join_colon xs \<noteq> []"
  by (induction xs rule: join_colon.induct) simp_all

lemma String_loop_not_empty: "String_loop s p \<noteq> []"
  by (simp add: String_loop_join join_colon_not_empty String_node_not_empty)

subsection \<open>Construction and the static slots\<close>

lemma Make_Some: "fst (Make object h) = Some (Ptr (next_addr h) object)"
  by (simp add: Make_def Let_def)

lemma statics_made_init: "statics_made heap_init"
  by (simp add: statics_made_def heap_init_def)

lemma statics_made_Make: "statics_made h \<Longrightarrow> statics_made (snd (Make object h))"
  by (simp add: statics_made_def Make_def Let_def)

lemma statics_made_Wrap_msg: "statics_made h \<Longrightarrow> statics_made (snd (Wrap_msg err msg h))"
  by (simp add: statics_made_def Wrap_msg_def Let_def)

lemma statics_made_DEFINE_ERROR_E:
  "statics_made h \<Longrightarrow> statics_made (snd (DEFINE_ERROR_E ErrType ErrMessage h))"
  by (simp add: statics_made_def DEFINE_ERROR_E_def Make_def Let_def split: option.splits)

lemma statics_made_DEFINE_CODE_ERROR_E:
  "statics_made h \<Longrightarrow> statics_made (snd (DEFINE_CODE_ERROR_E ErrType ErrCode ErrMessage h))"
  by (simp add: statics_made_def DEFINE_CODE_ERROR_E_def Make_def Let_def
      split: option.splits)

lemma DEFINE_ERROR_E_not_null:
  assumes "statics_made h"
  shows "fst (DEFINE_ERROR_E ErrType ErrMessage h) \<noteq> None"
proof (cases "statics h (DEFINE_ERROR_cls ErrType)")
  case None
  then show ?thesis
    by (simp add: DEFINE_ERROR_E_def Make_def Let_def)
next
  case (Some valuE)
  from assms have "statics h (DEFINE_ERROR_cls ErrType) \<noteq> Some None"
    by (simp add: statics_made_def)
  with Some show ?thesis
    by (simp add: DEFINE_ERROR_E_def)
qed

lemma DEFINE_CODE_ERROR_E_not_null:
  assumes "statics_made h"
  shows "fst (DEFINE_CODE_ERROR_E ErrType ErrCode ErrMessage h) \<noteq> None"
proof (cases "statics h (DEFINE_CODE_ERROR_cls ErrType)")
  case None
  then show ?thesis
    by (simp add: DEFINE_CODE_ERROR_E_def Make_def Let_def)
next
  case (Some valuE)
  from assms have "statics h (DEFINE_CODE_ERROR_cls ErrType) \<noteq> Some None"
    by (simp add: statics_made_def)
  with Some show ?thesis
    by (simp add: DEFINE_CODE_ERROR_E_def)
qed





subsection \<open>The example chain\<close>

lemma chain_example_top:
  "chain (Some example_top) = [example_top, example_coded, example_empty, example_root]"
  by (simp add: example_top_def example_coded_def example_empty_def example_root_def)

lemma chain_example_empty: "chain (Some example_empty) = [example_empty, example_root]"
  by (simp add: example_empty_def example_root_def)

lemma example_objects:
  "obj example_top = CodeMessageSubError 7 ''outer'' (Some example_coded)"
  "obj example_coded = CodeSubError 5 (Some example_empty)"
  "obj example_empty = RawStrMessageSubError None (Some example_root)"
  "obj example_root = RawStrMessageError (Some ''div 0'')"
  by (simp_all add: example_top_def example_coded_def example_empty_def example_root_def)

lemma example_to_string: "to_string 7 = ''7''" "to_string 5 = ''5''"
  by (simp_all add: to_string_def digits.simps digit_char_def)

section \<open>The claims\<close>

subsection \<open>C1: AsCode and IsCode\<close>

text \<open>
  C1, as the code has it. \<open>AsCode(c, err)\<close> is absent for the absent error; otherwise it
  walks the chain outermost first and returns the first node whose \<open>Code()\<close> equals \<open>c\<close>,
  absent when no node has that code. \<open>IsCode(c, err)\<close> holds exactly when some node of the
  chain has \<open>Code() == c\<close>. The value \<open>0\<close> is compared like every other value: the loop
  has no test on \<open>code\<close>.
\<close>

theorem AsCode_first_equal_code:
  fixes err :: "'c Error"
  shows "AsCode code (None :: 'c Error) = None
   \<and> AsCode code err = find (\<lambda>p. Code (obj p) = code) (chain err)
   \<and> (IsCode code err \<longleftrightarrow> code \<in> set (map (\<lambda>p. Code (obj p)) (chain err)))"
proof -
  have "IsCode code err \<longleftrightarrow> code \<in> set (map (\<lambda>p. Code (obj p)) (chain err))"
    unfolding IsCode_def AsCode_find by (auto simp: find_None_iff)
  then show ?thesis
    using AsCode_find [of code err] by (simp add: AsCode_def)
qed

theorem AsCode_first_equal_code_witness:
  "AsCode 5 (Some example_top) = Some example_coded
   \<and> IsCode 5 (Some example_top)
   \<and> \<not> IsCode 9 (Some example_top)
   \<and> AsCode 0 (Some example_top) = Some example_empty"
  using AsCode_first_equal_code [of 5 "Some example_top"]
    AsCode_first_equal_code [of 9 "Some example_top"]
    AsCode_first_equal_code [of 0 "Some example_top"]
  by (simp add: chain_example_top example_objects)

text \<open>
  C1 as stated says that the value \<open>0\<close> never matches. On the error \<open>gerr::New("div 0")\<close>,
  whose only node has \<open>Code() == 0\<close>, \<open>IsCode(0, err)\<close> is true and \<open>AsCode(0, err)\<close>
  is that node.
\<close>

theorem AsCode_zero_matches:
  "IsCode 0 (fst (New_msg (Some ''div 0'') (heap_init :: unit heap)))
   \<and> AsCode 0 (fst (New_msg (Some ''div 0'') (heap_init :: unit heap)))
       = Some (Ptr 0 (RawStrMessageError (Some ''div 0'')))"
  by (simp add: IsCode_def AsCode_def New_msg_def Make_def heap_init_def)

subsection \<open>C2: String\<close>

text \<open>
  C2. \<open>String\<close> is a total function. \<open>String(nullptr)\<close> is \<open><NIL>\<close>. For an error that is
  not null the result is the segments of the nodes of the chain, outermost first, joined
  with \<open>:\<close>, and it is not empty. The segment of a node is \<open>code:message\<close> when the code is
  not zero and the message is neither null nor empty, the code alone when the message is
  null or empty, the message alone when the code is zero, and \<open><EMPTY>\<close> when the code is
  zero and the message is null or empty.
\<close>

theorem String_renders_chain:
  fixes p :: "'c shared_ptr" and n1 n2 n3 n4 :: "'c IError"
  shows "String (None :: 'c Error) = ''<NIL>''
   \<and> String (Some p) = join_colon (map (\<lambda>q. String_node [] (obj q)) (chain (Some p)))
   \<and> String (Some p) \<noteq> []
   \<and> (Code n1 \<noteq> 0 \<and> Message n1 = Some m1 \<and> m1 \<noteq> []
        \<longrightarrow> String_node [] n1 = to_string (Code n1) @ '':'' @ m1)
   \<and> (Code n2 \<noteq> 0 \<and> (Message n2 = None \<or> Message n2 = Some [])
        \<longrightarrow> String_node [] n2 = to_string (Code n2))
   \<and> (Code n3 = 0 \<and> Message n3 = Some m3 \<and> m3 \<noteq> []
        \<longrightarrow> String_node [] n3 = m3)
   \<and> (Code n4 = 0 \<and> (Message n4 = None \<or> Message n4 = Some [])
        \<longrightarrow> String_node [] n4 = ''<EMPTY>'')"
proof -
  have a: "String (None :: 'c Error) = ''<NIL>''"
    by (simp add: String_def)
  have b: "String (Some p) = join_colon (map (\<lambda>q. String_node [] (obj q)) (chain (Some p)))"
    using String_loop_join [of "[]" p] by (simp add: String_def)
  have c: "String (Some p) \<noteq> []"
    by (simp add: String_def String_loop_not_empty)
  have d: "Code n1 \<noteq> 0 \<and> Message n1 = Some m1 \<and> m1 \<noteq> []
        \<longrightarrow> String_node [] n1 = to_string (Code n1) @ '':'' @ m1"
    by (simp add: String_node_def hasMsg_def append_cstr_def)
  have e: "Code n2 \<noteq> 0 \<and> (Message n2 = None \<or> Message n2 = Some [])
        \<longrightarrow> String_node [] n2 = to_string (Code n2)"
    by (auto simp: String_node_def hasMsg_def append_cstr_def)
  have f: "Code n3 = 0 \<and> Message n3 = Some m3 \<and> m3 \<noteq> [] \<longrightarrow> String_node [] n3 = m3"
    by (simp add: String_node_def hasMsg_def append_cstr_def)
  have g: "Code n4 = 0 \<and> (Message n4 = None \<or> Message n4 = Some [])
        \<longrightarrow> String_node [] n4 = ''<EMPTY>''"
    by (auto simp: String_node_def hasMsg_def append_cstr_def)
  from a b c d e f g show ?thesis by blast
qed

theorem String_renders_chain_witness:
  "String (Some example_top) = ''7:outer:5:<EMPTY>:div 0''
   \<and> Code (obj example_top) \<noteq> 0 \<and> Message (obj example_top) = Some ''outer''
   \<and> String_node [] (obj example_top) = ''7:outer''
   \<and> Code (obj example_coded) \<noteq> 0 \<and> Message (obj example_coded) = None
   \<and> String_node [] (obj example_coded) = ''5''
   \<and> Code (obj example_root) = 0 \<and> Message (obj example_root) = Some ''div 0''
   \<and> String_node [] (obj example_root) = ''div 0''
   \<and> Code (obj example_empty) = 0 \<and> Message (obj example_empty) = None
   \<and> String_node [] (obj example_empty) = ''<EMPTY>''"
  using String_renders_chain [of example_top "obj example_top" "''outer''"
      "obj example_coded" "obj example_root" "''div 0''" "obj example_empty"]
  by (simp add: chain_example_top example_objects example_to_string c_str_def)

subsection \<open>C3: Code\<close>

text \<open>
  C3. \<open>Code(err, d)\<close> is \<open>0\<close> for the absent error. Otherwise it is the \<open>Code()\<close> of the
  first node of the chain, outermost first, whose \<open>Code()\<close> is not zero, and \<open>d\<close> when
  every node of the chain has \<open>Code() == 0\<close>. When the second argument is left out it is
  \<open>-1\<close>.
\<close>

theorem Code_first_nonzero:
  fixes p :: "'c shared_ptr" and err :: "'c Error"
  shows "gerr_Code (None :: 'c Error) d = 0
   \<and> gerr_Code (Some p) d =
       (case find (\<lambda>q. Code (obj q) \<noteq> 0) (chain (Some p)) of
          None \<Rightarrow> d
        | Some q \<Rightarrow> Code (obj q))
   \<and> ((\<forall>q \<in> set (chain (Some p)). Code (obj q) = 0) \<longrightarrow> gerr_Code (Some p) d = d)
   \<and> Code_default err = gerr_Code err (- 1)"
proof -
  have a: "gerr_Code (None :: 'c Error) d = 0"
    by (simp add: gerr_Code_def)
  have b: "gerr_Code (Some p) d =
       (case find (\<lambda>q. Code (obj q) \<noteq> 0) (chain (Some p)) of
          None \<Rightarrow> d
        | Some q \<Rightarrow> Code (obj q))"
    by (rule gerr_Code_Some)
  have c: "(\<forall>q \<in> set (chain (Some p)). Code (obj q) = 0) \<longrightarrow> gerr_Code (Some p) d = d"
  proof
    assume "\<forall>q \<in> set (chain (Some p)). Code (obj q) = 0"
    then have "find (\<lambda>q. Code (obj q) \<noteq> 0) (chain (Some p)) = None"
      by (simp only: find_None_iff) blast
    then show "gerr_Code (Some p) d = d"
      by (simp only: gerr_Code_Some option.case)
  qed
  have e: "Code_default err = gerr_Code err (- 1)"
    by (simp add: Code_default_def)
  from a b c e show ?thesis by blast
qed

theorem Code_first_nonzero_witness:
  "gerr_Code (Some example_top) (- 1) = 7
   \<and> gerr_Code (Some example_coded) 42 = 5
   \<and> chain (Some example_empty) = [example_empty, example_root]
   \<and> Code (obj example_empty) = 0
   \<and> Code (obj example_root) = 0
   \<and> gerr_Code (Some example_empty) 42 = 42
   \<and> Code_default (Some example_empty) = - 1"
proof -
  have top: "gerr_Code (Some example_top) (- 1) = 7"
    using Code_first_nonzero [of "- 1" example_top "Some example_top"]
    by (simp add: chain_example_top example_objects)
  have coded: "gerr_Code (Some example_coded) 42 = 5"
    using Code_first_nonzero [of 42 example_coded "Some example_coded"]
    by (simp add: example_objects)
  have zeros: "\<forall>q \<in> set (chain (Some example_empty)). Code (obj q) = 0"
    by (simp add: chain_example_empty example_objects)
  with Code_first_nonzero [of 42 example_empty "Some example_empty"]
  have empty: "gerr_Code (Some example_empty) 42 = 42"
    by blast
  from zeros Code_first_nonzero [of "- 1" example_empty "Some example_empty"]
  have dflt: "Code_default (Some example_empty) = - 1"
    by simp
  have nodes: "chain (Some example_empty) = [example_empty, example_root]
      \<and> Code (obj example_empty) = 0 \<and> Code (obj example_root) = 0"
    by (simp add: chain_example_empty example_objects)
  from top coded nodes empty dflt show ?thesis by blast
qed

subsection \<open>C4: As\<close>

text \<open>
  C4. \<open>As<V>(err)\<close> is absent for the absent error; otherwise it walks the chain from the
  outermost node along the cause links and returns the first node whose class is \<open>V\<close>
  (every node, when \<open>V\<close> is the base class \<open>IError\<close>), absent when the chain has no such
  node. A node it returns has no node of class \<open>V\<close> before it in the chain. When \<open>Wrap\<close>
  makes an outer node of another class than \<open>V\<close>, \<open>As<V>\<close> of the wrapped error is
  \<open>As<V>\<close> of the error inside.
\<close>

theorem As_first_of_shape:
  fixes err :: "'c Error"
  shows "As V (None :: 'c Error) = None
   \<and> As V err = find (\<lambda>p. V = IError_cls \<or> class_of (obj p) = V) (chain err)
   \<and> (As V err = Some q \<longrightarrow>
        (\<exists>i < length (chain err). chain err ! i = q
           \<and> (V = IError_cls \<or> class_of (obj q) = V)
           \<and> (\<forall>j < i. \<not> (V = IError_cls \<or> class_of (obj (chain err ! j)) = V))))
   \<and> (V \<noteq> IError_cls \<and> V \<noteq> RawStrMessageSubError_cls
        \<longrightarrow> As V (fst (Wrap_msg err msg h)) = As V err)
   \<and> (V \<noteq> IError_cls \<and> V \<noteq> MessageSubError_cls
        \<longrightarrow> As V (fst (Wrap_fmt format err formatStr args h)) = As V err)
   \<and> (V \<noteq> IError_cls \<and> V \<noteq> CodeSubError_cls
        \<longrightarrow> As V (fst (Wrap_code err code h)) = As V err)
   \<and> (V \<noteq> IError_cls \<and> V \<noteq> CodeRawStrMessageSubError_cls
        \<longrightarrow> As V (fst (Wrap_code_msg err code msg h)) = As V err)
   \<and> (V \<noteq> IError_cls \<and> V \<noteq> CodeMessageSubError_cls
        \<longrightarrow> As V (fst (Wrap_code_fmt format err code formatStr args h)) = As V err)"
proof -
  have a: "As V (None :: 'c Error) = None"
    by (simp add: As_def)
  have b: "As V err = find (\<lambda>p. V = IError_cls \<or> class_of (obj p) = V) (chain err)"
    by (rule As_find)
  have c: "As V err = Some q \<longrightarrow>
        (\<exists>i < length (chain err). chain err ! i = q
           \<and> (V = IError_cls \<or> class_of (obj q) = V)
           \<and> (\<forall>j < i. \<not> (V = IError_cls \<or> class_of (obj (chain err ! j)) = V)))"
    unfolding As_find
    using find_first [of "\<lambda>p. V = IError_cls \<or> class_of (obj p) = V" "chain err" q]
    by blast
  have d: "V \<noteq> IError_cls \<and> V \<noteq> RawStrMessageSubError_cls
        \<longrightarrow> As V (fst (Wrap_msg err msg h)) = As V err"
    by (auto simp: As_find Wrap_msg_def Let_def)
  have e: "V \<noteq> IError_cls \<and> V \<noteq> MessageSubError_cls
        \<longrightarrow> As V (fst (Wrap_fmt format err formatStr args h)) = As V err"
    by (auto simp: As_find Wrap_fmt_def Make_def Let_def)
  have f: "V \<noteq> IError_cls \<and> V \<noteq> CodeSubError_cls
        \<longrightarrow> As V (fst (Wrap_code err code h)) = As V err"
    by (auto simp: As_find Wrap_code_def Make_def Let_def)
  have g: "V \<noteq> IError_cls \<and> V \<noteq> CodeRawStrMessageSubError_cls
        \<longrightarrow> As V (fst (Wrap_code_msg err code msg h)) = As V err"
    by (auto simp: As_find Wrap_code_msg_def Make_def Let_def)
  have i: "V \<noteq> IError_cls \<and> V \<noteq> CodeMessageSubError_cls
        \<longrightarrow> As V (fst (Wrap_code_fmt format err code formatStr args h)) = As V err"
    by (auto simp: As_find Wrap_code_fmt_def Make_def Let_def)
  from a b c d e f g i show ?thesis by blast
qed

theorem As_first_of_shape_witness:
  "As RawStrMessageError_cls (Some example_top) = Some example_root
   \<and> RawStrMessageError_cls \<noteq> IError_cls
   \<and> As RawStrMessageError_cls (fst (Wrap_msg (Some example_top) (Some ''w'') example_heap))
       = Some example_root
   \<and> As RawStrMessageError_cls
         (fst (Wrap_fmt (\<lambda>f a. f @ a) (Some example_top) ''x'' ''y'' example_heap))
       = Some example_root
   \<and> As RawStrMessageError_cls (fst (Wrap_code (Some example_top) 9 example_heap))
       = Some example_root
   \<and> As RawStrMessageError_cls
         (fst (Wrap_code_msg (Some example_top) 9 (Some ''w'') example_heap))
       = Some example_root
   \<and> As RawStrMessageError_cls
         (fst (Wrap_code_fmt (\<lambda>f a. f @ a) (Some example_top) 9 ''x'' ''y'' example_heap))
       = Some example_root
   \<and> (\<exists>i < length (chain (Some example_top)). chain (Some example_top) ! i = example_root
         \<and> (\<forall>j < i. class_of (obj (chain (Some example_top) ! j)) \<noteq> RawStrMessageError_cls))"
proof -
  note inst = As_first_of_shape [where V = RawStrMessageError_cls and err = "Some example_top"
      and q = example_root and msg = "Some ''w''" and h = example_heap
      and format = "\<lambda>f a. f @ a" and formatStr = "''x''" and args = "''y''" and code = 9]
  have found: "As RawStrMessageError_cls (Some example_top) = Some example_root"
    using inst by (simp add: chain_example_top example_objects)
  have other: "RawStrMessageError_cls \<noteq> IError_cls
     \<and> RawStrMessageError_cls \<noteq> RawStrMessageSubError_cls
     \<and> RawStrMessageError_cls \<noteq> MessageSubError_cls
     \<and> RawStrMessageError_cls \<noteq> CodeSubError_cls
     \<and> RawStrMessageError_cls \<noteq> CodeRawStrMessageSubError_cls
     \<and> RawStrMessageError_cls \<noteq> CodeMessageSubError_cls"
    by simp
  from inst other have wraps:
    "As RawStrMessageError_cls (fst (Wrap_msg (Some example_top) (Some ''w'') example_heap))
       = As RawStrMessageError_cls (Some example_top)
     \<and> As RawStrMessageError_cls
         (fst (Wrap_fmt (\<lambda>f a. f @ a) (Some example_top) ''x'' ''y'' example_heap))
       = As RawStrMessageError_cls (Some example_top)
     \<and> As RawStrMessageError_cls (fst (Wrap_code (Some example_top) 9 example_heap))
       = As RawStrMessageError_cls (Some example_top)
     \<and> As RawStrMessageError_cls
         (fst (Wrap_code_msg (Some example_top) 9 (Some ''w'') example_heap))
       = As RawStrMessageError_cls (Some example_top)
     \<and> As RawStrMessageError_cls
         (fst (Wrap_code_fmt (\<lambda>f a. f @ a) (Some example_top) 9 ''x'' ''y'' example_heap))
       = As RawStrMessageError_cls (Some example_top)"
    by blast
  from inst found other have first:
    "\<exists>i < length (chain (Some example_top)). chain (Some example_top) ! i = example_root
       \<and> (\<forall>j < i. class_of (obj (chain (Some example_top) ! j)) \<noteq> RawStrMessageError_cls)"
    by blast
  from found wraps first other show ?thesis
    by simp
qed

subsection \<open>C5: assignment to a Try\<close>



subsection \<open>C6: Wrap of the null error\<close>

text \<open>
  C6. Every overload of \<open>Wrap\<close>, called on the null error, returns a pointer that is not
  null to a new node whose \<open>Cause()\<close> is null: the node is an object of the class of the
  overload, made from the arguments, with the null cause, at the address that was unused
  before the call, and the call uses that address up.
\<close>

theorem Wrap_of_null_is_root:
  fixes h :: "'c heap"
  shows "fst (Wrap_msg None msg h) = Some (Ptr (next_addr h) (RawStrMessageSubError msg None))
   \<and> Cause (RawStrMessageSubError msg (None :: 'c Error)) = None
   \<and> next_addr (snd (Wrap_msg None msg h)) = Suc (next_addr h)
   \<and> fst (Wrap_fmt format None formatStr args h)
       = Some (Ptr (next_addr h) (MessageSubError (format formatStr args) None))
   \<and> Cause (MessageSubError (format formatStr args) (None :: 'c Error)) = None
   \<and> next_addr (snd (Wrap_fmt format None formatStr args h)) = Suc (next_addr h)
   \<and> fst (Wrap_code None code h) = Some (Ptr (next_addr h) (CodeSubError code None))
   \<and> Cause (CodeSubError code (None :: 'c Error)) = None
   \<and> next_addr (snd (Wrap_code None code h)) = Suc (next_addr h)
   \<and> fst (Wrap_code_msg None code msg h)
       = Some (Ptr (next_addr h) (CodeRawStrMessageSubError code msg None))
   \<and> Cause (CodeRawStrMessageSubError code msg (None :: 'c Error)) = None
   \<and> next_addr (snd (Wrap_code_msg None code msg h)) = Suc (next_addr h)
   \<and> fst (Wrap_code_fmt format None code formatStr args h)
       = Some (Ptr (next_addr h) (CodeMessageSubError code (format formatStr args) None))
   \<and> Cause (CodeMessageSubError code (format formatStr args) (None :: 'c Error)) = None
   \<and> next_addr (snd (Wrap_code_fmt format None code formatStr args h)) = Suc (next_addr h)
   \<and> (\<exists>p. fst (Wrap_msg None msg h) = Some p \<and> Cause (obj p) = None)
   \<and> (\<exists>p. fst (Wrap_fmt format None formatStr args h) = Some p \<and> Cause (obj p) = None)
   \<and> (\<exists>p. fst (Wrap_code None code h) = Some p \<and> Cause (obj p) = None)
   \<and> (\<exists>p. fst (Wrap_code_msg None code msg h) = Some p \<and> Cause (obj p) = None)
   \<and> (\<exists>p. fst (Wrap_code_fmt format None code formatStr args h) = Some p
          \<and> Cause (obj p) = None)"
  by (simp add: Wrap_msg_def Wrap_fmt_def Wrap_code_def Wrap_code_msg_def Wrap_code_fmt_def
      Make_def Let_def)

theorem Wrap_of_null_is_root_witness:
  "fst (Wrap_msg None (Some ''w'') example_heap)
     = Some (Ptr 4 (RawStrMessageSubError (Some ''w'') None))
   \<and> fst (Wrap_code None 9 example_heap) = Some (Ptr 4 (CodeSubError 9 None))
   \<and> Cause (CodeSubError 9 (None :: unit Error)) = None
   \<and> next_addr (snd (Wrap_code None 9 example_heap)) = 5
   \<and> fst (Wrap_code None 9 (snd (Wrap_code None 9 example_heap)))
     = Some (Ptr 5 (CodeSubError 9 None))"
proof -
  note one = Wrap_of_null_is_root [where h = example_heap and msg = "Some ''w''"
      and code = 9 and format = "\<lambda>f a. f @ a" and formatStr = "''x''" and args = "''y''"]
  note two = Wrap_of_null_is_root [where h = "snd (Wrap_code None 9 example_heap)"
      and msg = "Some ''w''" and code = 9 and format = "\<lambda>f a. f @ a"
      and formatStr = "''x''" and args = "''y''"]
  have start: "next_addr example_heap = 4"
    by (simp add: example_heap_def)
  from one two start show ?thesis
    by simp
qed

subsection \<open>C7: the factories E\<close>



text \<open>
  The context classes also declare overloads \<open>E(p, context)\<close> with a cause. Their bodies
  call \<open>Make\<close> with the cause and the message only, and the classes have no constructor
  with these parameters: a call of such an overload does not compile, and the
  overloads have no definition here.
\<close>

subsection \<open>C8: construction returns an error\<close>

text \<open>
  C8. \<open>Make\<close>, every overload of \<open>New\<close>, every overload of \<open>Wrap\<close> and the factories \<open>E\<close>
  return a pointer that is not null, for every argument, the null cause included. For
  \<open>E()\<close>, which returns the static slot, this holds in every heap in which the slots have
  been written by \<open>E()\<close> only.
\<close>

theorem construction_returns_non_null:
  fixes h :: "'c heap"
  shows "fst (Make object h) \<noteq> None
   \<and> fst (New_msg msg h) \<noteq> None
   \<and> fst (New_fmt format formatStr args h) \<noteq> None
   \<and> fst (New_code_msg code msg h) \<noteq> None
   \<and> fst (New_code_fmt format code formatStr args h) \<noteq> None
   \<and> fst (Wrap_msg err msg h) \<noteq> None
   \<and> fst (Wrap_fmt format err formatStr args h) \<noteq> None
   \<and> fst (Wrap_code err code h) \<noteq> None
   \<and> fst (Wrap_code_msg err code msg h) \<noteq> None
   \<and> fst (Wrap_code_fmt format err code formatStr args h) \<noteq> None
   \<and> (statics_made h \<longrightarrow> fst (DEFINE_ERROR_E ErrType ErrMessage h) \<noteq> None)
   \<and> fst (DEFINE_ERROR_E_cause ErrType ErrMessage err h) \<noteq> None
   \<and> (statics_made h \<longrightarrow> fst (DEFINE_CODE_ERROR_E ErrType ErrCode ErrMessage h) \<noteq> None)
   \<and> fst (DEFINE_CODE_ERROR_E_cause ErrType ErrCode ErrMessage err h) \<noteq> None
   \<and> fst (DEFINE_CONTEXT_ERROR_E ErrType ErrFormat ctx h) \<noteq> None
   \<and> fst (DEFINE_CODE_CONTEXT_ERROR_E ErrType ErrCode ErrFormat ctx h) \<noteq> None"
  by (simp add: Make_Some New_msg_def New_fmt_def New_code_msg_def New_code_fmt_def
      Wrap_msg_def Wrap_fmt_def Wrap_code_def Wrap_code_msg_def Wrap_code_fmt_def
      DEFINE_ERROR_E_cause_def DEFINE_CODE_ERROR_E_cause_def DEFINE_CONTEXT_ERROR_E_def
      DEFINE_CODE_CONTEXT_ERROR_E_def DEFINE_ERROR_E_not_null DEFINE_CODE_ERROR_E_not_null
      Let_def)

theorem construction_returns_non_null_witness:
  "statics_made (heap_init :: unit heap)
   \<and> fst (DEFINE_ERROR_E ''ErrArgumentZero'' (Some ''Argument is zero'')
            (heap_init :: unit heap)) \<noteq> None
   \<and> fst (DEFINE_CODE_ERROR_E ''ErrArgumentZero'' 1000001 (Some ''Argument is zero'')
            (heap_init :: unit heap)) \<noteq> None
   \<and> fst (Wrap_code None 9 (heap_init :: unit heap)) \<noteq> None"
proof -
  note inst = construction_returns_non_null [where h = "heap_init :: unit heap"
      and err = None and code = 9 and ErrType = "''ErrArgumentZero''"
      and ErrMessage = "Some ''Argument is zero''" and ErrCode = 1000001
      and object = "RawStrMessageError None" and msg = None
      and format = "\<lambda>f a. f @ a" and formatStr = "''x''" and args = "''y''"
      and ErrFormat = "\<lambda>c. ''z''" and ctx = "()"]
  have made: "statics_made (heap_init :: unit heap)"
    by (rule statics_made_init)
  from inst made show ?thesis
    by blast
qed

section \<open>The claims on Try\<close>

subsection \<open>C9: a Try made from the null error\<close>

text \<open>
  C9. A \<open>Try\<close> constructed from the null error is a success: \<open>IsSuccess()\<close> is true,
  \<open>IsFailure()\<close> is false, \<open>Error()\<close> is null and \<open>Value()\<close> is \<open>ValueType{}\<close>. The constructor
  takes the null error like any other.
\<close>

theorem Try_of_null_Error_is_success:
  "IsSuccess (Try_of_Error ValueType_init None)
   \<and> \<not> IsFailure (Try_of_Error ValueType_init None)
   \<and> Error (Try_of_Error ValueType_init None) = None
   \<and> Value (Try_of_Error ValueType_init None) = ValueType_init"
  by (simp add: IsSuccess_def IsFailure_def Try_of_Error_def Value_def Error_def)

subsection \<open>C10: assigning the null error to a success\<close>

text \<open>
  C10. \<open>Assign\<close>, and \<open>operator=\<close>, with the null error on a \<open>Try\<close> that is a success
  leave it a success and set its value to \<open>ValueType{}\<close>.
\<close>

theorem Assign_null_Error_resets_value:
  fixes t :: "('v, 'c) Try"
  shows "IsSuccess t \<longrightarrow>
     IsSuccess (Assign_Error ValueType_init None t)
     \<and> Value (Assign_Error ValueType_init None t) = ValueType_init
     \<and> IsSuccess (operator_assign_Error ValueType_init None t)
     \<and> Value (operator_assign_Error ValueType_init None t) = ValueType_init"
  by (simp add: IsSuccess_def Assign_Error_def operator_assign_Error_def ClearValue_def
      Value_def)

theorem Assign_null_Error_resets_value_witness:
  "IsSuccess (Try_of_value (3 :: int) :: (int, unit) Try)
   \<and> IsSuccess (Assign_Error (0 :: int) None (Try_of_value 3 :: (int, unit) Try))
   \<and> Value (Assign_Error (0 :: int) None (Try_of_value 3 :: (int, unit) Try)) = 0
   \<and> Value (Try_of_value 3 :: (int, unit) Try) = 3"
  using Assign_null_Error_resets_value [where t = "Try_of_value (3 :: int) :: (int, unit) Try"
      and ValueType_init = "0 :: int"]
  by (simp add: IsSuccess_def Try_of_value_def Value_def)

end
